theory Spec2Isabelle
  imports Main
begin

section \<open>Values, errors and the context\<close>

text \<open>
  Go's \<open>interface{}\<close> values, as far as the conditions look at them: a dynamic type
  (the constructor) and a value of that type. \<open>VInt\<close> and \<open>VInt64\<close> are the Go types
  \<open>int\<close> and \<open>int64\<close>; \<open>VSlice\<close> stands for the uncomparable dynamic types
  (\<open>[]interface{}\<close>).
\<close>

datatype val =
    VNil
  | VBool bool
  | VInt int
  | VInt64 int
  | VString string
  | VSlice "val list"

text \<open>
  Every \<open>panic\<close> of the source is a value of \<open>error\<close>; a method that returns \<open>bool\<close>
  in Go returns \<open>error + bool\<close> here, \<open>Inl\<close> being the panic.
  \<^item> \<open>NoCondition\<close>: \<open>errors.New("no condition")\<close>
  \<^item> \<open>ErrorConditionOpMode\<close>: \<open>errors.New("error condition op mode")\<close>
  \<^item> \<open>LastOpNeedCond\<close>: \<open>errors.New("last op need a cond triggered")\<close>
  \<^item> \<open>UnimplementedMethod\<close>: \<open>errors.New(SpringConst.UNIMPLEMENTED_METHOD)\<close>
  \<^item> \<open>EvalError msg\<close>: \<open>panic(err)\<close> with the error of \<open>types.Eval\<close>
  \<^item> \<open>RuntimePanic msg\<close>: a panic of the Go runtime (comparison of uncomparable
    values, nil dereference) or of a user's closure
\<close>

datatype error =
    NoCondition
  | ErrorConditionOpMode
  | LastOpNeedCond
  | UnimplementedMethod
  | EvalError string
  | RuntimePanic string

definition nil_dereference :: error where
  "nil_dereference = RuntimePanic ''invalid memory address or nil pointer dereference''"

datatype BeanDefinition = BeanDefinition string

text \<open>
  Modelled from the spec: the interface \<open>SpringContext\<close> is declared outside the source
  files at hand. The four methods the conditions call are read-only and return values
  (section 6 of the specification): the keys under a prefix, a property with a default
  and a found flag, a bean with a found flag, the active profile.
\<close>

record SpringContext =
  GetPrefixProperties :: "string \<Rightarrow> string list"
  GetDefaultProperty :: "string \<Rightarrow> val \<Rightarrow> val \<times> bool"
  FindBean :: "val \<Rightarrow> BeanDefinition option \<times> bool"
  GetProfile :: "string"

text \<open>
  The two library functions \<open>propertyValueCondition.Matches\<close> calls are parameters:
  \<open>cast.ToString\<close> renders a value as text; \<open>types.Eval\<close> returns an error message
  (\<open>Inl\<close>) or the \<open>TypeAndValue\<close>, of which only \<open>ret.Value.String()\<close> is read:
  \<open>Some s\<close> when the expression is a constant that prints as \<open>s\<close>, \<open>None\<close> when
  \<open>ret.Value\<close> is nil.
\<close>

record GoLib =
  cast_ToString :: "val \<Rightarrow> string"
  types_Eval :: "string \<Rightarrow> string + string option"

text \<open>
  \<open>a == b\<close> on two interface values: equal dynamic types and equal values; the Go
  runtime panics when the two have the same uncomparable dynamic type.
\<close>

fun iface_eq :: "val \<Rightarrow> val \<Rightarrow> error + bool" where
  "iface_eq (VSlice xs) (VSlice ys) = Inl (RuntimePanic ''comparing uncomparable type'')"
| "iface_eq a b = Inr (a = b)"

text \<open>\<open>strings.Contains(s, "$")\<close> and \<open>strings.Replace(s, "$", new, -1)\<close>.\<close>

definition strings_Contains_dollar :: "string \<Rightarrow> bool" where
  "strings_Contains_dollar s = (CHR ''$'' \<in> set s)"

definition strings_Replace_dollar :: "string \<Rightarrow> string \<Rightarrow> string" where
  "strings_Replace_dollar s new = concat (map (\<lambda>ch. if ch = CHR ''$'' then new else [ch]) s)"

section \<open>Conditions\<close>

type_synonym ConditionOp = int

abbreviation ConditionOr :: ConditionOp where "ConditionOr \<equiv> 1"
abbreviation ConditionAnd :: ConditionOp where "ConditionAnd \<equiv> 2"
abbreviation ConditionNone :: ConditionOp where "ConditionNone \<equiv> 3"

text \<open>
  One constructor per implementation of the interface \<open>Condition\<close>. A
  \<open>ConditionFunc\<close> is a Go closure, which may panic. The values are the non-nil
  interface values; the positions of the source that are tested against \<open>nil\<close> (the
  fields of a \<open>conditionNode\<close>) are options below.
\<close>

datatype Condition =
    FunctionCondition "SpringContext \<Rightarrow> error + bool"
  | NotCondition Condition
  | PropertyCondition string
  | MissingPropertyCondition string
  | PropertyValueCondition string val
  | BeanCondition val
  | MissingBeanCondition val
  | ExpressionCondition string
  | ProfileCondition string
  | Conditions ConditionOp "Condition list"

definition propertyCondition_Matches :: "SpringContext \<Rightarrow> string \<Rightarrow> error + bool" where
  "propertyCondition_Matches ctx name = Inr (length (GetPrefixProperties ctx name) > 0)"

definition missingPropertyCondition_Matches :: "SpringContext \<Rightarrow> string \<Rightarrow> error + bool" where
  "missingPropertyCondition_Matches ctx name = Inr (length (GetPrefixProperties ctx name) = 0)"

definition propertyValueCondition_Matches ::
  "GoLib \<Rightarrow> SpringContext \<Rightarrow> string \<Rightarrow> val \<Rightarrow> error + bool" where
  "propertyValueCondition_Matches L ctx name havingValue =
     (case GetDefaultProperty ctx name (VString '''') of
        (v, ok) \<Rightarrow>
          if \<not> ok then Inr False
          else (case havingValue of
                  VString expectValue \<Rightarrow>
                    if \<not> strings_Contains_dollar expectValue then iface_eq v (VString expectValue)
                    else (case types_Eval L (strings_Replace_dollar expectValue (cast_ToString L v)) of
                            Inr ret \<Rightarrow>
                              (case ret of
                                 Some s \<Rightarrow> Inr (s = ''true'')
                               | None \<Rightarrow> Inl nil_dereference)
                          | Inl err \<Rightarrow> Inl (EvalError err))
                | _ \<Rightarrow> iface_eq v havingValue))"

definition beanCondition_Matches :: "SpringContext \<Rightarrow> val \<Rightarrow> error + bool" where
  "beanCondition_Matches ctx selector = (case FindBean ctx selector of (_, ok) \<Rightarrow> Inr ok)"

definition missingBeanCondition_Matches :: "SpringContext \<Rightarrow> val \<Rightarrow> error + bool" where
  "missingBeanCondition_Matches ctx selector = (case FindBean ctx selector of (_, ok) \<Rightarrow> Inr (\<not> ok))"

definition expressionCondition_Matches :: "SpringContext \<Rightarrow> string \<Rightarrow> error + bool" where
  "expressionCondition_Matches ctx expression = Inl UnimplementedMethod"

definition profileCondition_Matches :: "SpringContext \<Rightarrow> string \<Rightarrow> error + bool" where
  "profileCondition_Matches ctx profile =
     (if profile \<noteq> '''' \<and> profile \<noteq> GetProfile ctx then Inr False else Inr True)"

text \<open>
  \<open>Matches\<close> is the dispatch of the interface method. The three loops of
  \<open>conditions.Matches\<close> are \<open>range_Or\<close>, \<open>range_And\<close> and \<open>range_None\<close>; a panic of
  a member leaves the loop at once.
\<close>

fun Matches :: "GoLib \<Rightarrow> SpringContext \<Rightarrow> Condition \<Rightarrow> error + bool"
  and range_Or :: "GoLib \<Rightarrow> SpringContext \<Rightarrow> Condition list \<Rightarrow> error + bool"
  and range_And :: "GoLib \<Rightarrow> SpringContext \<Rightarrow> Condition list \<Rightarrow> error + bool"
  and range_None :: "GoLib \<Rightarrow> SpringContext \<Rightarrow> Condition list \<Rightarrow> error + bool"
where
  "Matches L ctx (FunctionCondition fn) = fn ctx"
| "Matches L ctx (NotCondition c) =
     (case Matches L ctx c of Inl e \<Rightarrow> Inl e | Inr r \<Rightarrow> Inr (\<not> r))"
| "Matches L ctx (PropertyCondition name) = propertyCondition_Matches ctx name"
| "Matches L ctx (MissingPropertyCondition name) = missingPropertyCondition_Matches ctx name"
| "Matches L ctx (PropertyValueCondition name havingValue) =
     propertyValueCondition_Matches L ctx name havingValue"
| "Matches L ctx (BeanCondition selector) = beanCondition_Matches ctx selector"
| "Matches L ctx (MissingBeanCondition selector) = missingBeanCondition_Matches ctx selector"
| "Matches L ctx (ExpressionCondition expression) = expressionCondition_Matches ctx expression"
| "Matches L ctx (ProfileCondition profile) = profileCondition_Matches ctx profile"
| "Matches L ctx (Conditions op cs) =
     (if length cs = 0 then Inl NoCondition
      else if op = ConditionOr then range_Or L ctx cs
      else if op = ConditionAnd then range_And L ctx cs
      else if op = ConditionNone then range_None L ctx cs
      else Inl ErrorConditionOpMode)"
| "range_Or L ctx [] = Inr False"
| "range_Or L ctx (c0 # cs) =
     (case Matches L ctx c0 of
        Inl e \<Rightarrow> Inl e
      | Inr r \<Rightarrow> if r then Inr True else range_Or L ctx cs)"
| "range_And L ctx [] = Inr True"
| "range_And L ctx (c0 # cs) =
     (case Matches L ctx c0 of
        Inl e \<Rightarrow> Inl e
      | Inr ok \<Rightarrow> if \<not> ok then Inr False else range_And L ctx cs)"
| "range_None L ctx [] = Inr True"
| "range_None L ctx (c0 # cs) =
     (case Matches L ctx c0 of
        Inl e \<Rightarrow> Inl e
      | Inr r \<Rightarrow> if r then Inr False else range_None L ctx cs)"

section \<open>The condition chain and its builder\<close>

text \<open>
  The nodes of a chain are shared and mutated through pointers (\<open>head\<close>, \<open>curr\<close>,
  \<open>next\<close>), and \<open>Empty\<close> compares two pointers, so the nodes live in a store: a list
  of nodes, a pointer being an index into it. \<open>newConditionNode\<close> allocates at the end
  of the store; the zero value of a node has no condition, operator \<open>0\<close> and no next
  node. The field \<open>next\<close> of the source is \<open>nxt\<close> here.
\<close>

record conditionNode =
  cond :: "Condition option"
  op :: ConditionOp
  nxt :: "nat option"

type_synonym store = "conditionNode list"

definition newConditionNode :: "store \<Rightarrow> store \<times> nat" where
  "newConditionNode h = (h @ [\<lparr>cond = None, op = 0, nxt = None\<rparr>], length h)"

text \<open>
  The test \<open>c.next != nil && c.next.cond == nil\<close> of \<open>conditionNode.Matches\<close>.
\<close>

definition next_holds_no_cond :: "store \<Rightarrow> conditionNode \<Rightarrow> bool" where
  "next_holds_no_cond h node =
     (case nxt node of None \<Rightarrow> False | Some n \<Rightarrow> n < length h \<and> cond (h ! n) = None)"

text \<open>
  \<open>conditionNode.Matches\<close> follows the \<open>next\<close> pointers; on a store with a cycle the
  recursion of the source does not return, which is the value \<open>None\<close>. A pointer
  outside the store (no Go pointer is) reads as a nil dereference.
\<close>

partial_function (option) conditionNode_Matches ::
  "GoLib \<Rightarrow> SpringContext \<Rightarrow> store \<Rightarrow> nat \<Rightarrow> (error + bool) option" where
  "conditionNode_Matches L ctx h c =
     (if \<not> c < length h then Some (Inl nil_dereference)
      else (case cond (h ! c) of
              None \<Rightarrow> Some (Inr True)
            | Some cnd \<Rightarrow>
                if next_holds_no_cond h (h ! c) then Some (Inl LastOpNeedCond)
                else (case Matches L ctx cnd of
                        Inl e \<Rightarrow> Some (Inl e)
                      | Inr r \<Rightarrow>
                          (case nxt (h ! c) of
                             Some n \<Rightarrow>
                               if op (h ! c) = ConditionOr then
                                 (if r then Some (Inr r) else conditionNode_Matches L ctx h n)
                               else if op (h ! c) = ConditionAnd then
                                 (if r then conditionNode_Matches L ctx h n else Some (Inr False))
                               else Some (Inl ErrorConditionOpMode)
                           | None \<Rightarrow> Some (Inr r)))))"

record Conditional =
  head :: nat
  curr :: nat

type_synonym builder = "store \<times> Conditional"

definition NewConditional :: "store \<Rightarrow> builder" where
  "NewConditional h =
     (case newConditionNode h of (h', node) \<Rightarrow> (h', \<lparr>head = node, curr = node\<rparr>))"

definition Empty :: "builder \<Rightarrow> bool" where
  "Empty b = (case b of (h, c) \<Rightarrow> head c = curr c)"

definition Conditional_Matches :: "GoLib \<Rightarrow> SpringContext \<Rightarrow> builder \<Rightarrow> (error + bool) option" where
  "Conditional_Matches L ctx b = (case b of (h, c) \<Rightarrow> conditionNode_Matches L ctx h (head c))"

definition Or :: "builder \<Rightarrow> builder" where
  "Or b =
     (case b of (h, c) \<Rightarrow>
        (case newConditionNode h of (h1, node) \<Rightarrow>
           (h1[curr c := (h1 ! curr c)\<lparr>op := ConditionOr, nxt := Some node\<rparr>],
            c\<lparr>curr := node\<rparr>)))"

definition And :: "builder \<Rightarrow> builder" where
  "And b =
     (case b of (h, c) \<Rightarrow>
        (case newConditionNode h of (h1, node) \<Rightarrow>
           (h1[curr c := (h1 ! curr c)\<lparr>op := ConditionAnd, nxt := Some node\<rparr>],
            c\<lparr>curr := node\<rparr>)))"

definition OnCondition :: "Condition \<Rightarrow> builder \<Rightarrow> builder" where
  "OnCondition cnd b =
     (let b1 = (case b of (h, c) \<Rightarrow> if cond (h ! curr c) \<noteq> None then And b else b)
      in case b1 of (h, c) \<Rightarrow> (h[curr c := (h ! curr c)\<lparr>cond := Some cnd\<rparr>], c))"

definition OnConditionNot :: "Condition \<Rightarrow> builder \<Rightarrow> builder" where
  "OnConditionNot cnd b = OnCondition (NotCondition cnd) b"

text \<open>
  A call of one of the three builder methods, and a sequence of calls applied in order
  (the fluent style \<open>c.Or().OnCondition(a)...\<close>).
\<close>

datatype builder_call = CallOr | CallAnd | CallOnCondition Condition

fun apply_call :: "builder \<Rightarrow> builder_call \<Rightarrow> builder" where
  "apply_call b CallOr = Or b"
| "apply_call b CallAnd = And b"
| "apply_call b (CallOnCondition cnd) = OnCondition cnd b"

definition apply_calls :: "builder \<Rightarrow> builder_call list \<Rightarrow> builder" where
  "apply_calls b calls = foldl apply_call b calls"

section \<open>A concrete context\<close>

text \<open>
  A context with one property \<open>threads = 8\<close> (an \<open>int\<close>), one key under the prefix
  \<open>feature.enabled\<close>, one bean \<open>cache\<close> and the profile \<open>prod\<close>; and a library that
  prints \<open>8\<close> and evaluates three expressions.
\<close>

definition example_ctx :: SpringContext where
  "example_ctx =
     \<lparr>GetPrefixProperties = (\<lambda>p. if p = ''feature.enabled'' then [''feature.enabled''] else []),
      GetDefaultProperty = (\<lambda>n d. if n = ''threads'' then (VInt 8, True) else (d, False)),
      FindBean = (\<lambda>s. if s = VString ''cache'' then (Some (BeanDefinition ''cache''), True)
                       else (None, False)),
      GetProfile = ''prod''\<rparr>"

definition example_lib :: GoLib where
  "example_lib =
     \<lparr>cast_ToString = (\<lambda>v. if v = VInt 8 then ''8'' else []),
      types_Eval = (\<lambda>e. if e = ''8>=4'' then Inr (Some ''true'')
                         else if e = ''8>=9'' then Inr (Some ''false'')
                         else if e = ''new(int)'' then Inr None
                         else Inl ''syntax error'')\<rparr>"

definition yes :: Condition where
  "yes = FunctionCondition (\<lambda>ctx. Inr True)"

definition no :: Condition where
  "no = FunctionCondition (\<lambda>ctx. Inr False)"

section \<open>Present and absent conditions\<close>

text \<open>
  C8: on the same context, \<open>PropertyCondition n\<close> and \<open>MissingPropertyCondition n\<close>
  return opposite booleans, and so do \<open>BeanCondition s\<close> and \<open>MissingBeanCondition s\<close>;
  none of the four panics.
\<close>

theorem present_absent_complement:
  "(\<exists>b. Matches L ctx (PropertyCondition n) = Inr b
        \<and> Matches L ctx (MissingPropertyCondition n) = Inr (\<not> b))
   \<and> (\<exists>b. Matches L ctx (BeanCondition s) = Inr b
        \<and> Matches L ctx (MissingBeanCondition s) = Inr (\<not> b))"
  by (simp add: propertyCondition_Matches_def missingPropertyCondition_Matches_def
      beanCondition_Matches_def missingBeanCondition_Matches_def split: prod.split)

section \<open>The builder calls, as equations on the store\<close>

lemma NewConditional_eq:
  "NewConditional h =
     (h @ [\<lparr>cond = None, op = 0, nxt = None\<rparr>], \<lparr>head = length h, curr = length h\<rparr>)"
  by (simp add: NewConditional_def newConditionNode_def)

lemma Or_eq:
  "curr c < length h \<Longrightarrow>
   Or (h, c) = (h[curr c := (h ! curr c)\<lparr>op := ConditionOr, nxt := Some (length h)\<rparr>]
                  @ [\<lparr>cond = None, op = 0, nxt = None\<rparr>], c\<lparr>curr := length h\<rparr>)"
  by (simp add: Or_def newConditionNode_def nth_append list_update_append)

lemma And_eq:
  "curr c < length h \<Longrightarrow>
   And (h, c) = (h[curr c := (h ! curr c)\<lparr>op := ConditionAnd, nxt := Some (length h)\<rparr>]
                  @ [\<lparr>cond = None, op = 0, nxt = None\<rparr>], c\<lparr>curr := length h\<rparr>)"
  by (simp add: And_def newConditionNode_def nth_append list_update_append)

lemma OnCondition_vacant:
  "cond (h ! curr c) = None \<Longrightarrow>
   OnCondition d (h, c) = (h[curr c := (h ! curr c)\<lparr>cond := Some d\<rparr>], c)"
  by (simp add: OnCondition_def)

lemma OnCondition_holding:
  "curr c < length h \<Longrightarrow> cond (h ! curr c) = Some a \<Longrightarrow>
   OnCondition d (h, c) =
     (h[curr c := (h ! curr c)\<lparr>op := ConditionAnd, nxt := Some (length h)\<rparr>]
        @ [\<lparr>cond = Some d, op = 0, nxt = None\<rparr>], c\<lparr>curr := length h\<rparr>)"
  by (simp add: OnCondition_def And_eq nth_append list_update_append)

section \<open>One step of the evaluation of a node\<close>

lemma node_vacant:
  "c < length h \<Longrightarrow> cond (h ! c) = None \<Longrightarrow> conditionNode_Matches L ctx h c = Some (Inr True)"
  by (subst conditionNode_Matches.simps) simp

lemma node_dangling:
  "c < length h \<Longrightarrow> cond (h ! c) = Some a \<Longrightarrow> nxt (h ! c) = Some n \<Longrightarrow> n < length h \<Longrightarrow>
   cond (h ! n) = None \<Longrightarrow> conditionNode_Matches L ctx h c = Some (Inl LastOpNeedCond)"
  by (subst conditionNode_Matches.simps) (simp add: next_holds_no_cond_def)

lemma node_last:
  "c < length h \<Longrightarrow> cond (h ! c) = Some a \<Longrightarrow> nxt (h ! c) = None \<Longrightarrow>
   conditionNode_Matches L ctx h c = Some (Matches L ctx a)"
  by (subst conditionNode_Matches.simps) (simp add: next_holds_no_cond_def split: sum.splits)

lemma node_link:
  "c < length h \<Longrightarrow> cond (h ! c) = Some a \<Longrightarrow> nxt (h ! c) = Some n \<Longrightarrow> n < length h \<Longrightarrow>
   cond (h ! n) = Some b \<Longrightarrow>
   conditionNode_Matches L ctx h c =
     (case Matches L ctx a of
        Inl e \<Rightarrow> Some (Inl e)
      | Inr r \<Rightarrow>
          if op (h ! c) = ConditionOr then
            (if r then Some (Inr True) else conditionNode_Matches L ctx h n)
          else if op (h ! c) = ConditionAnd then
            (if r then conditionNode_Matches L ctx h n else Some (Inr False))
          else Some (Inl ErrorConditionOpMode))"
  by (subst conditionNode_Matches.simps) (simp add: next_holds_no_cond_def split: sum.splits)

section \<open>Once the head is passed without a condition\<close>

text \<open>
  When the cursor is beyond a head that holds no condition, no call writes to the head
  again: \<open>Or\<close> and \<open>And\<close> write to the cursor and allocate beyond it, \<open>OnCondition\<close>
  writes to the cursor.
\<close>

lemma apply_call_head_vacant:
  assumes "head c < curr c" "curr c < length h" "cond (h ! head c) = None"
  shows "case apply_call (h, c) x of (h', c') \<Rightarrow>
           head c' = head c \<and> head c' < curr c' \<and> curr c' < length h' \<and> cond (h' ! head c') = None"
proof (cases x)
  case CallOr
  then show ?thesis using assms by (simp add: Or_eq nth_append)
next
  case CallAnd
  then show ?thesis using assms by (simp add: And_eq nth_append)
next
  case (CallOnCondition d)
  show ?thesis
  proof (cases "cond (h ! curr c)")
    case None
    then show ?thesis using assms CallOnCondition by (simp add: OnCondition_vacant)
  next
    case (Some a)
    then show ?thesis using assms CallOnCondition by (simp add: OnCondition_holding nth_append)
  qed
qed

lemma apply_calls_head_vacant:
  "head c < curr c \<Longrightarrow> curr c < length h \<Longrightarrow> cond (h ! head c) = None \<Longrightarrow>
   (case apply_calls (h, c) calls of (h', c') \<Rightarrow> head c' < length h' \<and> cond (h' ! head c') = None)"
proof (induction calls arbitrary: h c)
  case Nil
  then show ?case by (simp add: apply_calls_def)
next
  case (Cons x calls)
  obtain h1 c1 where step: "apply_call (h, c) x = (h1, c1)" by (cases "apply_call (h, c) x")
  from apply_call_head_vacant [OF Cons.prems, of x] step
  have "head c1 < curr c1" "curr c1 < length h1" "cond (h1 ! head c1) = None" by auto
  from Cons.IH [OF this] step show ?case by (simp add: apply_calls_def)
qed

lemma apply_calls_matches_True:
  assumes "head c < curr c" "curr c < length h" "cond (h ! head c) = None"
  shows "Conditional_Matches L ctx (apply_calls (h, c) calls) = Some (Inr True)"
proof -
  obtain h' c' where r: "apply_calls (h, c) calls = (h', c')" by (cases "apply_calls (h, c) calls")
  with apply_calls_head_vacant [OF assms, of calls]
  have "head c' < length h'" "cond (h' ! head c') = None" by simp_all
  then show ?thesis by (simp add: r Conditional_Matches_def node_vacant)
qed

section \<open>Evaluation of a chain\<close>

text \<open>
  C1: a node that holds a condition \<open>A\<close> and whose next node \<open>n\<close> holds a condition.
  With \<open>ConditionOr\<close>: if \<open>A\<close> matches, the chain is true, whatever the remainder is
  (nothing is assumed of its evaluation, which may panic or not return); if \<open>A\<close> does not
  match, the result is that of the remainder. With \<open>ConditionAnd\<close>: if \<open>A\<close> matches, the
  result is that of the remainder; if not, the chain is false, whatever the remainder is.
  \<open>A\<close> is evaluated first: its panic is the chain's. The operators are applied in
  sequence, without precedence: \<open>P.And().Q.Or().R\<close> is \<open>P && (Q || R)\<close>, false when
  \<open>P\<close> is, even if \<open>R\<close> matches.
\<close>

theorem chain_node_short_circuit:
  assumes "c < length h" and "cond (h ! c) = Some A" and "nxt (h ! c) = Some n"
    and "n < length h" and "cond (h ! n) = Some B"
  shows "(op (h ! c) = ConditionOr \<longrightarrow>
            (Matches L ctx A = Inr True \<longrightarrow> conditionNode_Matches L ctx h c = Some (Inr True))
          \<and> (Matches L ctx A = Inr False \<longrightarrow>
               conditionNode_Matches L ctx h c = conditionNode_Matches L ctx h n))
       \<and> (op (h ! c) = ConditionAnd \<longrightarrow>
            (Matches L ctx A = Inr True \<longrightarrow>
               conditionNode_Matches L ctx h c = conditionNode_Matches L ctx h n)
          \<and> (Matches L ctx A = Inr False \<longrightarrow> conditionNode_Matches L ctx h c = Some (Inr False)))
       \<and> (\<forall>e. Matches L ctx A = Inl e \<longrightarrow> conditionNode_Matches L ctx h c = Some (Inl e))
       \<and> Conditional_Matches L ctx
            (OnCondition R (Or (OnCondition Q (And (OnCondition P (NewConditional h0)))))) =
          Some (case Matches L ctx P of
                  Inl e \<Rightarrow> Inl e
                | Inr p \<Rightarrow>
                    if p then (case Matches L ctx Q of
                                 Inl e \<Rightarrow> Inl e
                               | Inr q \<Rightarrow> if q then Inr True else Matches L ctx R)
                    else Inr False)"
proof -
  have step: "conditionNode_Matches L ctx h c =
     (case Matches L ctx A of
        Inl e \<Rightarrow> Some (Inl e)
      | Inr r \<Rightarrow>
          if op (h ! c) = ConditionOr then
            (if r then Some (Inr True) else conditionNode_Matches L ctx h n)
          else if op (h ! c) = ConditionAnd then
            (if r then conditionNode_Matches L ctx h n else Some (Inr False))
          else Some (Inl ErrorConditionOpMode))"
    using assms by (rule node_link)
  have chain: "Conditional_Matches L ctx
            (OnCondition R (Or (OnCondition Q (And (OnCondition P (NewConditional h0)))))) =
          Some (case Matches L ctx P of
                  Inl e \<Rightarrow> Inl e
                | Inr p \<Rightarrow>
                    if p then (case Matches L ctx Q of
                                 Inl e \<Rightarrow> Inl e
                               | Inr q \<Rightarrow> if q then Inr True else Matches L ctx R)
                    else Inr False)"
    by (simp add: NewConditional_eq OnCondition_vacant Or_eq And_eq Conditional_Matches_def
        node_link [where n = "Suc (length h0)"] node_link [where n = "Suc (Suc (length h0))"]
        node_last nth_append list_update_append split: sum.splits)
  show ?thesis using step chain by simp
qed

text \<open>
  At a store where the remainder, if it were evaluated, would not return (node 1 is its
  own next node), an \<open>Or\<close> node whose condition matches is true.
\<close>

theorem chain_node_short_circuit_witness:
  "conditionNode_Matches example_lib example_ctx
     [\<lparr>cond = Some yes, op = ConditionOr, nxt = Some 1\<rparr>,
      \<lparr>cond = Some no, op = ConditionOr, nxt = Some 1\<rparr>] 0 = Some (Inr True)
   \<and> conditionNode_Matches example_lib example_ctx
     [\<lparr>cond = Some no, op = ConditionAnd, nxt = Some 1\<rparr>,
      \<lparr>cond = Some no, op = ConditionOr, nxt = Some 1\<rparr>] 0 = Some (Inr False)"
  using chain_node_short_circuit [of 0
      "[\<lparr>cond = Some yes, op = ConditionOr, nxt = Some 1\<rparr>,
        \<lparr>cond = Some no, op = ConditionOr, nxt = Some 1\<rparr>]" yes 1 no example_lib example_ctx]
    chain_node_short_circuit [of 0
      "[\<lparr>cond = Some no, op = ConditionAnd, nxt = Some 1\<rparr>,
        \<lparr>cond = Some no, op = ConditionOr, nxt = Some 1\<rparr>]" no 1 no example_lib example_ctx]
  by (simp add: yes_def no_def)

text \<open>
  C2: \<open>NewConditional().OnCondition(A).And()\<close>, with no condition attached after the
  operator, panics with "last op need a cond triggered" on every context; so does every
  node that holds a condition and whose next node holds none.
\<close>

theorem dangling_operator_panics:
  "Conditional_Matches L ctx (And (OnCondition A (NewConditional h0))) = Some (Inl LastOpNeedCond)
   \<and> (c < length h \<and> cond (h ! c) = Some a \<and> nxt (h ! c) = Some n \<and> n < length h
        \<and> cond (h ! n) = None
      \<longrightarrow> conditionNode_Matches L ctx h c = Some (Inl LastOpNeedCond))"
  by (simp add: NewConditional_eq OnCondition_vacant And_eq Conditional_Matches_def
      node_dangling [where n = "Suc (length h0)"] node_dangling [where n = n] nth_append)

theorem dangling_operator_panics_witness:
  "conditionNode_Matches example_lib example_ctx
     [\<lparr>cond = Some yes, op = ConditionOr, nxt = Some 1\<rparr>,
      \<lparr>cond = None, op = 0, nxt = None\<rparr>] 0 = Some (Inl LastOpNeedCond)"
  using dangling_operator_panics [of example_lib example_ctx yes "[]" 0
      "[\<lparr>cond = Some yes, op = ConditionOr, nxt = Some 1\<rparr>,
        \<lparr>cond = None, op = 0, nxt = None\<rparr>]" yes 1]
  by simp

text \<open>
  C5: when the cursor node already holds a condition, \<open>OnCondition d\<close> is \<open>And\<close>
  followed by the assignment of \<open>d\<close> to the new cursor node: the old cursor node gets
  the operator \<open>ConditionAnd\<close> and the new node as its next node, and the new node holds
  \<open>d\<close>. So \<open>NewConditional().OnCondition(a).OnCondition(b)\<close> evaluates to the
  short-circuit conjunction of \<open>a\<close> and \<open>b\<close>: \<open>b\<close> is evaluated only if \<open>a\<close> matches.
\<close>

theorem OnCondition_implicit_And:
  "(curr c < length h \<and> cond (h ! curr c) = Some x \<longrightarrow>
      OnCondition d (h, c) =
        (case And (h, c) of (h1, c1) \<Rightarrow> (h1[curr c1 := (h1 ! curr c1)\<lparr>cond := Some d\<rparr>], c1))
    \<and> OnCondition d (h, c) =
        (h[curr c := (h ! curr c)\<lparr>op := ConditionAnd, nxt := Some (length h)\<rparr>]
           @ [\<lparr>cond = Some d, op = 0, nxt = None\<rparr>], c\<lparr>curr := length h\<rparr>))
   \<and> Conditional_Matches L ctx (OnCondition b (OnCondition a (NewConditional h0))) =
       Some (case Matches L ctx a of
               Inl e \<Rightarrow> Inl e
             | Inr r \<Rightarrow> if r then Matches L ctx b else Inr False)"
proof -
  have 1: "OnCondition d (h, c) =
        (case And (h, c) of (h1, c1) \<Rightarrow> (h1[curr c1 := (h1 ! curr c1)\<lparr>cond := Some d\<rparr>], c1))"
    if "cond (h ! curr c) = Some x"
    using that by (simp add: OnCondition_def)
  have 2: "OnCondition d (h, c) =
        (h[curr c := (h ! curr c)\<lparr>op := ConditionAnd, nxt := Some (length h)\<rparr>]
           @ [\<lparr>cond = Some d, op = 0, nxt = None\<rparr>], c\<lparr>curr := length h\<rparr>)"
    if "curr c < length h" "cond (h ! curr c) = Some x"
    using that by (rule OnCondition_holding)
  have 3: "Conditional_Matches L ctx (OnCondition b (OnCondition a (NewConditional h0))) =
       Some (case Matches L ctx a of
               Inl e \<Rightarrow> Inl e
             | Inr r \<Rightarrow> if r then Matches L ctx b else Inr False)"
    by (simp add: NewConditional_eq OnCondition_vacant OnCondition_holding Conditional_Matches_def
        node_link [where n = "Suc (length h0)"] node_last nth_append split: sum.splits)
  show ?thesis using 1 2 3 by blast
qed

theorem OnCondition_implicit_And_witness:
  "OnCondition no ([\<lparr>cond = Some yes, op = 0, nxt = None\<rparr>], \<lparr>head = 0, curr = 0\<rparr>) =
     ([\<lparr>cond = Some yes, op = ConditionAnd, nxt = Some 1\<rparr>,
       \<lparr>cond = Some no, op = 0, nxt = None\<rparr>], \<lparr>head = 0, curr = 1\<rparr>)
   \<and> Conditional_Matches example_lib example_ctx
        (OnCondition (ExpressionCondition ''x'') (OnCondition no (NewConditional []))) =
      Some (Inr False)"
  using OnCondition_implicit_And [of "\<lparr>head = 0, curr = 0\<rparr>"
      "[\<lparr>cond = Some yes, op = 0, nxt = None\<rparr>]" yes no example_lib example_ctx
      "ExpressionCondition ''x''" no "[]"]
  by (simp add: yes_def no_def And_def newConditionNode_def)

text \<open>
  C6: a fresh \<open>Conditional\<close>, with no condition attached, evaluates to true on every
  context, without panic.
\<close>

theorem fresh_Conditional_matches:
  "Conditional_Matches L ctx (NewConditional h0) = Some (Inr True)"
  by (simp add: Conditional_Matches_def NewConditional_eq node_vacant)

text \<open>
  C9: after \<open>Or()\<close> or \<open>And()\<close> on a fresh \<open>Conditional\<close> the head node holds no
  condition and has a next node; whatever calls follow, \<open>Matches\<close> returns true on every
  context, and the conditions attached to the later nodes are not evaluated; so for
  \<open>NewConditional().And().OnCondition(a)\<close>.
\<close>

theorem operator_before_condition:
  "cond (fst (Or (NewConditional h0)) ! head (snd (Or (NewConditional h0)))) = None
   \<and> nxt (fst (Or (NewConditional h0)) ! head (snd (Or (NewConditional h0)))) = Some (Suc (length h0))
   \<and> cond (fst (And (NewConditional h0)) ! head (snd (And (NewConditional h0)))) = None
   \<and> nxt (fst (And (NewConditional h0)) ! head (snd (And (NewConditional h0)))) = Some (Suc (length h0))
   \<and> Conditional_Matches L ctx (apply_calls (Or (NewConditional h0)) calls) = Some (Inr True)
   \<and> Conditional_Matches L ctx (apply_calls (And (NewConditional h0)) calls) = Some (Inr True)
   \<and> Conditional_Matches L ctx (OnCondition a (And (NewConditional h0))) = Some (Inr True)"
proof -
  have o: "Or (NewConditional h0) =
      (h0 @ [\<lparr>cond = None, op = ConditionOr, nxt = Some (Suc (length h0))\<rparr>,
             \<lparr>cond = None, op = 0, nxt = None\<rparr>],
       \<lparr>head = length h0, curr = Suc (length h0)\<rparr>)"
    by (simp add: NewConditional_eq Or_eq)
  have a: "And (NewConditional h0) =
      (h0 @ [\<lparr>cond = None, op = ConditionAnd, nxt = Some (Suc (length h0))\<rparr>,
             \<lparr>cond = None, op = 0, nxt = None\<rparr>],
       \<lparr>head = length h0, curr = Suc (length h0)\<rparr>)"
    by (simp add: NewConditional_eq And_eq)
  have 1: "Conditional_Matches L ctx (apply_calls (Or (NewConditional h0)) calls) = Some (Inr True)"
    unfolding o by (rule apply_calls_matches_True) simp_all
  have 2: "Conditional_Matches L ctx (apply_calls (And (NewConditional h0)) calls) = Some (Inr True)"
    unfolding a by (rule apply_calls_matches_True) simp_all
  have 3: "Conditional_Matches L ctx (OnCondition a (And (NewConditional h0))) = Some (Inr True)"
    using apply_calls_matches_True [of "snd (And (NewConditional h0))"
        "fst (And (NewConditional h0))" L ctx "[CallOnCondition a]"]
    by (simp add: a apply_calls_def)
  show ?thesis using 1 2 3 by (simp add: o a)
qed

text \<open>
  C10: in \<open>a.Or().b.And()\<close>, left with a trailing operator, the test for the missing
  condition is made at the node of \<open>b\<close> only: if \<open>a\<close> matches, \<open>Matches\<close> returns true
  and nothing panics; if \<open>a\<close> does not match, the node of \<open>b\<close> is visited and panics
  with "last op need a cond triggered".
\<close>

theorem dangling_check_only_when_reached:
  "(Matches L ctx a = Inr True \<longrightarrow>
      Conditional_Matches L ctx (And (OnCondition b (Or (OnCondition a (NewConditional h0))))) =
        Some (Inr True))
   \<and> (Matches L ctx a = Inr False \<longrightarrow>
      Conditional_Matches L ctx (And (OnCondition b (Or (OnCondition a (NewConditional h0))))) =
        Some (Inl LastOpNeedCond))
   \<and> (\<forall>e. Matches L ctx a = Inl e \<longrightarrow>
      Conditional_Matches L ctx (And (OnCondition b (Or (OnCondition a (NewConditional h0))))) =
        Some (Inl e))"
  by (simp add: NewConditional_eq OnCondition_vacant Or_eq And_eq Conditional_Matches_def
      node_link [where n = "Suc (length h0)"] node_dangling [where n = "Suc (Suc (length h0))"]
      nth_append list_update_append)

theorem dangling_check_only_when_reached_witness:
  "Conditional_Matches example_lib example_ctx
      (And (OnCondition no (Or (OnCondition yes (NewConditional []))))) = Some (Inr True)
   \<and> Conditional_Matches example_lib example_ctx
      (And (OnCondition yes (Or (OnCondition no (NewConditional []))))) = Some (Inl LastOpNeedCond)"
  using dangling_check_only_when_reached [of example_lib example_ctx yes no "[]"]
    dangling_check_only_when_reached [of example_lib example_ctx no yes "[]"]
  by (simp add: yes_def no_def)

section \<open>The query \<open>Empty\<close>\<close>

text \<open>
  C4: \<open>Empty\<close> compares the two pointers only. After a single \<open>OnCondition\<close> on a
  fresh \<open>Conditional\<close> the head holds the condition and is still the cursor, and
  \<open>Empty\<close> returns true.
\<close>

theorem Empty_after_first_OnCondition:
  "Empty (OnCondition a (NewConditional h0))
   \<and> cond (fst (OnCondition a (NewConditional h0)) ! head (snd (OnCondition a (NewConditional h0))))
       = Some a"
  by (simp add: NewConditional_eq OnCondition_vacant Empty_def)

section \<open>Condition groups\<close>

lemma range_None_True:
  "(range_None L ctx cs = Inr True) = (\<forall>c\<in>set cs. Matches L ctx c = Inr False)"
  by (induction cs) (auto split: sum.splits)

lemma range_None_total:
  "\<forall>c\<in>set cs. \<exists>b. Matches L ctx c = Inr b \<Longrightarrow>
   range_None L ctx cs = Inr (\<not> (\<exists>c\<in>set cs. Matches L ctx c = Inr True))"
  by (induction cs) (auto split: sum.splits)

text \<open>
  C7: a group with no member panics with "no condition", whatever the operator is, the
  values outside 1, 2, 3 included. A group with operator \<open>ConditionNone\<close> and at least
  one member returns true exactly when every member returns false; when no member
  panics, its result is true iff no member matches. With two members: both false gives
  true, one of them true gives false.
\<close>

theorem group_None_and_empty_group:
  "Matches L ctx (Conditions k []) = Inl NoCondition
   \<and> (cs \<noteq> [] \<longrightarrow>
        (Matches L ctx (Conditions ConditionNone cs) = Inr True)
          = (\<forall>c\<in>set cs. Matches L ctx c = Inr False))
   \<and> (cs \<noteq> [] \<and> (\<forall>c\<in>set cs. \<exists>b. Matches L ctx c = Inr b) \<longrightarrow>
        Matches L ctx (Conditions ConditionNone cs)
          = Inr (\<not> (\<exists>c\<in>set cs. Matches L ctx c = Inr True)))
   \<and> (Matches L ctx A = Inr False \<and> Matches L ctx B = Inr False \<longrightarrow>
        Matches L ctx (Conditions ConditionNone [A, B]) = Inr True)
   \<and> (Matches L ctx A = Inr True \<longrightarrow>
        Matches L ctx (Conditions ConditionNone [A, B]) = Inr False)
   \<and> (Matches L ctx A = Inr False \<and> Matches L ctx B = Inr True \<longrightarrow>
        Matches L ctx (Conditions ConditionNone [A, B]) = Inr False)"
proof -
  have 1: "(Matches L ctx (Conditions ConditionNone cs) = Inr True)
          = (\<forall>c\<in>set cs. Matches L ctx c = Inr False)" if "cs \<noteq> []"
    using that by (simp add: range_None_True)
  have 2: "Matches L ctx (Conditions ConditionNone cs)
          = Inr (\<not> (\<exists>c\<in>set cs. Matches L ctx c = Inr True))"
    if "cs \<noteq> []" "\<forall>c\<in>set cs. \<exists>b. Matches L ctx c = Inr b"
    using that range_None_total [of cs L ctx] by simp
  show ?thesis using 1 2 by simp
qed

theorem group_None_and_empty_group_witness:
  "Matches example_lib example_ctx (Conditions 7 []) = Inl NoCondition
   \<and> Matches example_lib example_ctx (Conditions ConditionNone [no, PropertyCondition ''absent''])
       = Inr True
   \<and> Matches example_lib example_ctx (Conditions ConditionNone [yes, no]) = Inr False
   \<and> Matches example_lib example_ctx (Conditions ConditionNone [no, yes]) = Inr False"
  using group_None_and_empty_group [of example_lib example_ctx 7
      "[no, PropertyCondition ''absent'']" no "PropertyCondition ''absent''"]
    group_None_and_empty_group [of example_lib example_ctx 7 "[yes, no]" yes no]
    group_None_and_empty_group [of example_lib example_ctx 7 "[no, yes]" no yes]
  by (simp add: yes_def no_def propertyCondition_Matches_def example_ctx_def)

section \<open>The property value condition\<close>

lemma iface_eq_comparable:
  "\<not> (\<exists>xs ys. x = VSlice xs \<and> v = VSlice ys) \<Longrightarrow> iface_eq x v = Inr (x = v)"
  by (cases x; cases v) simp_all

text \<open>
  C3: \<open>PropertyValueCondition n v\<close> on a context.
  \<^item> The context has no property \<open>n\<close>: false, no panic.
  \<^item> It has one, \<open>x\<close>, and \<open>v\<close> is not a string: the result is \<open>x == v\<close> on interface
    values, that is, equal dynamic types and equal values (and the panic of the Go
    runtime when both are of the same uncomparable type).
  \<^item> \<open>v\<close> is a string without \<open>$\<close>: true iff \<open>x\<close> is that string.
  \<^item> \<open>v\<close> is a string with \<open>$\<close>: every \<open>$\<close> is replaced by the text of \<open>x\<close> and the
    expression is evaluated; the result is true iff the value prints as \<open>true\<close>; an
    error of the evaluator is a panic with that error, never the result false.
\<close>

theorem propertyValue_Matches_cases:
  "(snd (GetDefaultProperty ctx n (VString [])) = False \<longrightarrow>
      Matches L ctx (PropertyValueCondition n v) = Inr False)
   \<and> (GetDefaultProperty ctx n (VString []) = (x, True) \<longrightarrow>
        ((\<forall>s. v \<noteq> VString s) \<longrightarrow>
           Matches L ctx (PropertyValueCondition n v) = iface_eq x v
         \<and> (\<not> (\<exists>xs ys. x = VSlice xs \<and> v = VSlice ys) \<longrightarrow>
              Matches L ctx (PropertyValueCondition n v) = Inr (x = v)))
      \<and> (\<forall>s. v = VString s \<and> CHR ''$'' \<notin> set s \<longrightarrow>
           Matches L ctx (PropertyValueCondition n v) = Inr (x = VString s))
      \<and> (\<forall>s. v = VString s \<and> CHR ''$'' \<in> set s \<longrightarrow>
           (\<forall>out. types_Eval L (concat (map (\<lambda>ch. if ch = CHR ''$'' then cast_ToString L x else [ch]) s))
                    = Inr (Some out) \<longrightarrow>
              Matches L ctx (PropertyValueCondition n v) = Inr (out = ''true''))
         \<and> (\<forall>err. types_Eval L (concat (map (\<lambda>ch. if ch = CHR ''$'' then cast_ToString L x else [ch]) s))
                    = Inl err \<longrightarrow>
              Matches L ctx (PropertyValueCondition n v) = Inl (EvalError err))
         \<and> (types_Eval L (concat (map (\<lambda>ch. if ch = CHR ''$'' then cast_ToString L x else [ch]) s))
                    = Inr None \<longrightarrow>
              Matches L ctx (PropertyValueCondition n v) = Inl nil_dereference)))"
proof -
  have absent: "Matches L ctx (PropertyValueCondition n v) = Inr False"
    if "snd (GetDefaultProperty ctx n (VString [])) = False"
    using that
    by (cases "GetDefaultProperty ctx n (VString [])") (simp add: propertyValueCondition_Matches_def)
  have other: "Matches L ctx (PropertyValueCondition n v) = iface_eq x v"
    if "GetDefaultProperty ctx n (VString []) = (x, True)" "\<forall>s. v \<noteq> VString s"
    using that by (cases v) (simp_all add: propertyValueCondition_Matches_def)
  have plain: "Matches L ctx (PropertyValueCondition n (VString s)) = Inr (x = VString s)"
    if "GetDefaultProperty ctx n (VString []) = (x, True)" "CHR ''$'' \<notin> set s" for s
    using that
    by (simp add: propertyValueCondition_Matches_def strings_Contains_dollar_def iface_eq_comparable)
  have template: "Matches L ctx (PropertyValueCondition n (VString s)) =
      (case types_Eval L (concat (map (\<lambda>ch. if ch = CHR ''$'' then cast_ToString L x else [ch]) s)) of
         Inl err \<Rightarrow> Inl (EvalError err)
       | Inr None \<Rightarrow> Inl nil_dereference
       | Inr (Some out) \<Rightarrow> Inr (out = ''true''))"
    if "GetDefaultProperty ctx n (VString []) = (x, True)" "CHR ''$'' \<in> set s" for s
    using that
    by (simp add: propertyValueCondition_Matches_def strings_Contains_dollar_def
        strings_Replace_dollar_def split: sum.splits option.splits)
  show ?thesis
    using absent other plain template by (auto simp: iface_eq_comparable)
qed

text \<open>
  On the context where \<open>threads\<close> is the \<open>int\<close> 8: no property \<open>missing\<close>; equal to the
  \<open>int\<close> 8, not to the \<open>int64\<close> 8, not to the string \<open>8\<close>; \<open>$>=4\<close> becomes \<open>8>=4\<close>, true;
  \<open>$>=9\<close> becomes \<open>8>=9\<close>, false; \<open>$$\<close> becomes \<open>88\<close>, which the evaluator of the
  example rejects.
\<close>

theorem propertyValue_Matches_cases_witness:
  "Matches example_lib example_ctx (PropertyValueCondition ''missing'' (VInt 8)) = Inr False
   \<and> Matches example_lib example_ctx (PropertyValueCondition ''threads'' (VInt 8)) = Inr True
   \<and> Matches example_lib example_ctx (PropertyValueCondition ''threads'' (VInt64 8)) = Inr False
   \<and> Matches example_lib example_ctx (PropertyValueCondition ''threads'' (VString ''8'')) = Inr False
   \<and> Matches example_lib example_ctx (PropertyValueCondition ''threads'' (VString ''$>=4'')) = Inr True
   \<and> Matches example_lib example_ctx (PropertyValueCondition ''threads'' (VString ''$>=9'')) = Inr False
   \<and> Matches example_lib example_ctx (PropertyValueCondition ''threads'' (VString ''$$''))
       = Inl (EvalError ''syntax error'')"
  using propertyValue_Matches_cases [of example_ctx "''missing''" example_lib "VInt 8" "VInt 8"]
    propertyValue_Matches_cases [of example_ctx "''threads''" example_lib "VInt 8" "VInt 8"]
    propertyValue_Matches_cases [of example_ctx "''threads''" example_lib "VInt64 8" "VInt 8"]
    propertyValue_Matches_cases [of example_ctx "''threads''" example_lib "VString ''8''" "VInt 8"]
    propertyValue_Matches_cases [of example_ctx "''threads''" example_lib "VString ''$>=4''" "VInt 8"]
    propertyValue_Matches_cases [of example_ctx "''threads''" example_lib "VString ''$>=9''" "VInt 8"]
    propertyValue_Matches_cases [of example_ctx "''threads''" example_lib "VString ''$$''" "VInt 8"]
  by (simp add: example_ctx_def example_lib_def)

end
